theory Spec2Isabelle
  imports Complex_Main "HOL-Library.Sublist"
begin

section \<open>Python values used by \<open>pre_market_bias_app.py\<close>\<close>

text \<open>
  The script is an orchestration of three external services (market data, news search, chat
  completion).  Each service is a parameter of the function that calls it, and returns either
  an exception or a value, so that every \<open>raise\<close> of the source is a branch of the model.

  Floating-point numbers are idealised as real numbers: the only non-number a price column
  can yield from numeric rows is \<open>nan\<close>, the result pandas gives for the maximum or minimum
  of an empty column.  Strings are byte lists; the three non-ASCII characters of the source
  are written as their UTF-8 bytes.
\<close>

datatype py_error = PyException string

datatype py_num = PyFloat real | PyNaN | PyInt int

fun is_number :: "py_num \<Rightarrow> bool" where
  "is_number (PyFloat r) = True"
| "is_number PyNaN = False"
| "is_number (PyInt i) = True"

text \<open>
  \<open>round(x, 2)\<close> on a float: the value scaled by 100, rounded to the nearest integer with
  ties to the even neighbour, scaled back.  \<open>round(nan, 2)\<close> is \<open>nan\<close>; on an int it is the
  int itself.
\<close>

definition round_half_even :: "real \<Rightarrow> int" where
  "round_half_even x =
     (let f = \<lfloor>x\<rfloor>; d = x - of_int f
      in if d < 1 / 2 then f
         else if 1 / 2 < d then f + 1
         else if even f then f else f + 1)"

definition round2 :: "real \<Rightarrow> real" where
  "round2 x = of_int (round_half_even (x * 100)) / 100"

fun py_round2 :: "py_num \<Rightarrow> py_num" where
  "py_round2 (PyFloat r) = PyFloat (round2 r)"
| "py_round2 PyNaN = PyNaN"
| "py_round2 (PyInt i) = PyInt i"

section \<open>Market data: \<open>get_price_stats\<close>\<close>

text \<open>
  One row of the frame \<open>yf.download\<close> returns.  \<open>bar_time\<close> is the time of day of the
  row's timestamp in seconds after midnight; \<open>between_time\<close> looks at nothing else of the
  timestamp.  Rows come in the provider's order, oldest first.
\<close>

record bar =
  bar_time :: nat
  bar_open :: real
  bar_high :: real
  bar_low :: real
  bar_close :: real

datatype interval = FiveMin | OneDay

text \<open>
  \<open>yf.download(ticker, start=..., end=..., interval=...)\<close>: dates are day numbers, \<open>end\<close>
  is optional.
\<close>

type_synonym market_provider =
  "string \<Rightarrow> int \<Rightarrow> int option \<Rightarrow> interval \<Rightarrow> py_error + bar list"

text \<open>
  \<open>DataFrame.between_time(start_time, end_time)\<close> with both ends included.  When the start
  is later than the end the window wraps around midnight.
\<close>

definition in_time_window :: "nat \<Rightarrow> nat \<Rightarrow> nat \<Rightarrow> bool" where
  "in_time_window start_time end_time t =
     (if start_time \<le> end_time then start_time \<le> t \<and> t \<le> end_time
      else start_time \<le> t \<or> t \<le> end_time)"

definition between_time :: "nat \<Rightarrow> nat \<Rightarrow> bar list \<Rightarrow> bar list" where
  "between_time start_time end_time df =
     filter (\<lambda>b. in_time_window start_time end_time (bar_time b)) df"

text \<open>\<open>Series.max()\<close> and \<open>Series.min()\<close>: \<open>nan\<close> on an empty column.\<close>

fun series_max :: "real list \<Rightarrow> py_num" where
  "series_max [] = PyNaN"
| "series_max (x # xs) = PyFloat (fold max xs x)"

fun series_min :: "real list \<Rightarrow> py_num" where
  "series_min [] = PyNaN"
| "series_min (x # xs) = PyFloat (fold min xs x)"

text \<open>\<open>18:00\<close> and \<open>09:30\<close> in seconds after midnight.\<close>

definition t_1800 :: nat where
  "t_1800 = 64800"

definition t_0930 :: nat where
  "t_0930 = 34200"

text \<open>
  \<open>get_price_stats(ticker)\<close>.  \<open>today\<close> is the date the source reads from the clock in the
  session timezone.  The result is the returned dict, \<open>{}\<close> being the empty map.  The
  five-minute cache of the decorator is not modelled.
\<close>

definition get_price_stats ::
  "market_provider \<Rightarrow> int \<Rightarrow> string \<Rightarrow> py_error + (string \<rightharpoonup> py_num)" where
  "get_price_stats yf_download today ticker =
     (let start = today - 1 in
      case yf_download ticker start None FiveMin of
        Inl e \<Rightarrow> Inl e
      | Inr intraday \<Rightarrow>
          if intraday = [] then Inr Map.empty
          else
            let overnight = between_time t_1800 t_0930 intraday;
                high = series_max (map bar_high overnight);
                low = series_min (map bar_low overnight);
                last = bar_close (intraday ! (length intraday - 1))
            in case yf_download ticker (start - 2) (Some start) OneDay of
                 Inl e \<Rightarrow> Inl e
               | Inr daily \<Rightarrow>
                   let prev_close =
                         (if daily \<noteq> [] then bar_close (daily ! (length daily - 1))
                          else last);
                       pct =
                         (if prev_close \<noteq> 0
                          then PyFloat (round2 ((last - prev_close) / prev_close * 100))
                          else PyInt 0)
                   in Inr (Map.empty(''high'' \<mapsto> py_round2 high,
                           ''low'' \<mapsto> py_round2 low,
                           ''last'' \<mapsto> PyFloat (round2 last),
                           ''prev_close'' \<mapsto> PyFloat (round2 prev_close),
                           ''pct_change'' \<mapsto> pct)))"

section \<open>Text\<close>

text \<open>
  The bullet, the em dash and the warning sign (with its variation selector) of the source,
  as UTF-8 bytes, and the newline.
\<close>

definition bullet :: string where
  "bullet = [CHR 0xE2, CHR 0x80, CHR 0xA2]"

definition em_dash :: string where
  "em_dash = [CHR 0xE2, CHR 0x80, CHR 0x94]"

definition warning_sign :: string where
  "warning_sign = [CHR 0xE2, CHR 0x9A, CHR 0xA0, CHR 0xEF, CHR 0xB8, CHR 0x8F]"

definition newline :: string where
  "newline = [CHR 0x0A]"

text \<open>\<open>sep.join(parts)\<close>.\<close>

fun str_join :: "string \<Rightarrow> string list \<Rightarrow> string" where
  "str_join sep [] = []"
| "str_join sep [x] = x"
| "str_join sep (x # y # ys) = x @ sep @ str_join sep (y # ys)"

text \<open>\<open>str(n)\<close> of an int.\<close>

definition dec_digit :: "nat \<Rightarrow> char" where
  "dec_digit n = ''0123456789'' ! n"

fun show_nat :: "nat \<Rightarrow> string" where
  "show_nat n =
     (if n < 10 then [dec_digit n] else show_nat (n div 10) @ [dec_digit (n mod 10)])"

definition show_int :: "int \<Rightarrow> string" where
  "show_int i = (if i < 0 then CHR ''-'' # show_nat (nat (- i)) else show_nat (nat i))"

text \<open>
  \<open>requests.utils.quote\<close>: letters, digits and \<open>_.-~/\<close> stay, every other byte becomes
  \<open>%XX\<close>.
\<close>

definition quote_safe :: "char \<Rightarrow> bool" where
  "quote_safe c =
     (let n = (of_char c :: nat)
      in (48 \<le> n \<and> n \<le> 57) \<or> (65 \<le> n \<and> n \<le> 90) \<or> (97 \<le> n \<and> n \<le> 122)
         \<or> c \<in> set ''_.-~/'')"

definition hex_digit :: "nat \<Rightarrow> char" where
  "hex_digit n = ''0123456789ABCDEF'' ! n"

definition quote :: "string \<Rightarrow> string" where
  "quote s =
     concat (map (\<lambda>c. if quote_safe c then [c]
                        else [CHR ''%'', hex_digit (of_char c div 16),
                              hex_digit (of_char c mod 16)]) s)"

text \<open>
  \<open>str.strip()\<close>: whitespace removed at both ends (the ASCII whitespace; other Unicode spaces
  are outside the byte model).
\<close>

definition is_space :: "char \<Rightarrow> bool" where
  "is_space c =
     (let n = (of_char c :: nat) in (9 \<le> n \<and> n \<le> 13) \<or> (28 \<le> n \<and> n \<le> 32))"

definition py_strip :: "string \<Rightarrow> string" where
  "py_strip s = rev (dropWhile is_space (rev (dropWhile is_space s)))"

section \<open>News: \<open>fetch_news\<close>\<close>

text \<open>The value \<open>r.json()\<close> returns: a parsed JSON document.\<close>

datatype json =
    JNull
  | JBool bool
  | JInt int
  | JFloat real
  | JStr string
  | JArr "json list"
  | JObj "(string \<times> json) list"

text \<open>
  \<open>v.get(key, default)\<close>, \<open>v[key]\<close> with a string key, and iteration \<open>for a in v\<close>, on
  each kind of value.  Only a dict has \<open>get\<close>; a string key subscripts only a dict; lists,
  dicts (their keys) and strings (their characters) can be iterated.
\<close>

fun py_get :: "json \<Rightarrow> string \<Rightarrow> json \<Rightarrow> py_error + json" where
  "py_get (JObj kvs) key dflt =
     (case map_of kvs key of Some v \<Rightarrow> Inr v | None \<Rightarrow> Inr dflt)"
| "py_get v key dflt = Inl (PyException ''AttributeError'')"

fun py_subscript :: "json \<Rightarrow> string \<Rightarrow> py_error + json" where
  "py_subscript (JObj kvs) key =
     (case map_of kvs key of Some v \<Rightarrow> Inr v | None \<Rightarrow> Inl (PyException ''KeyError''))"
| "py_subscript v key = Inl (PyException ''TypeError'')"

fun py_iter :: "json \<Rightarrow> py_error + json list" where
  "py_iter (JArr xs) = Inr xs"
| "py_iter (JObj kvs) = Inr (map (\<lambda>kv. JStr (fst kv)) kvs)"
| "py_iter (JStr s) = Inr (map (\<lambda>c. JStr [c]) s)"
| "py_iter v = Inl (PyException ''TypeError'')"

text \<open>
  A value inside an f-string.  A string is itself, \<open>None\<close> and the booleans have fixed
  texts; the text of a number, list or dict is given by the parameter \<open>repr\<close>.
\<close>

fun py_format :: "(json \<Rightarrow> string) \<Rightarrow> json \<Rightarrow> string" where
  "py_format repr (JStr s) = s"
| "py_format repr JNull = ''None''"
| "py_format repr (JBool b) = (if b then ''True'' else ''False'')"
| "py_format repr v = repr v"

record http_response =
  status_code :: nat
  json_body :: "py_error + json"

type_synonym news_provider = "string \<Rightarrow> py_error + http_response"

text \<open>\<open>r.raise_for_status()\<close> raises for the statuses 400 to 599.\<close>

definition raise_for_status :: "http_response \<Rightarrow> py_error + unit" where
  "raise_for_status r =
     (if 400 \<le> status_code r \<and> status_code r < 600 then Inl (PyException ''HTTPError'')
      else Inr ())"

definition news_url :: "string \<Rightarrow> string \<Rightarrow> int \<Rightarrow> string" where
  "news_url api_key query max_headlines =
     ''https://newsapi.org/v2/top-headlines?''
     @ ''q='' @ quote query @ ''&language=en&category=business''
     @ ''&pageSize='' @ show_int max_headlines @ ''&apiKey='' @ api_key"

text \<open>One element of the list comprehension, and the comprehension.\<close>

definition headline_of :: "(json \<Rightarrow> string) \<Rightarrow> json \<Rightarrow> py_error + string" where
  "headline_of repr a =
     (case py_subscript a ''title'' of
        Inl e \<Rightarrow> Inl e
      | Inr t \<Rightarrow>
          (case py_subscript a ''source'' of
             Inl e \<Rightarrow> Inl e
           | Inr src \<Rightarrow>
               (case py_subscript src ''name'' of
                  Inl e \<Rightarrow> Inl e
                | Inr n \<Rightarrow> Inr (py_format repr t @ '' '' @ em_dash @ '' '' @ py_format repr n))))"

fun headlines_of :: "(json \<Rightarrow> string) \<Rightarrow> json list \<Rightarrow> py_error + string list" where
  "headlines_of repr [] = Inr []"
| "headlines_of repr (a # as) =
     (case headline_of repr a of
        Inl e \<Rightarrow> Inl e
      | Inr h \<Rightarrow> (case headlines_of repr as of Inl e \<Rightarrow> Inl e | Inr hs \<Rightarrow> Inr (h # hs)))"

text \<open>The body of the \<open>try\<close>.\<close>

definition fetch_news_try ::
  "news_provider \<Rightarrow> (json \<Rightarrow> string) \<Rightarrow> string \<Rightarrow> py_error + string list" where
  "fetch_news_try requests_get repr url =
     (case requests_get url of
        Inl e \<Rightarrow> Inl e
      | Inr r \<Rightarrow>
          (case raise_for_status r of
             Inl e \<Rightarrow> Inl e
           | Inr u \<Rightarrow>
               (case json_body r of
                  Inl e \<Rightarrow> Inl e
                | Inr j \<Rightarrow>
                    (case py_get j ''articles'' (JArr []) of
                       Inl e \<Rightarrow> Inl e
                     | Inr arts \<Rightarrow>
                         (case py_iter arts of
                            Inl e \<Rightarrow> Inl e
                          | Inr as \<Rightarrow> headlines_of repr as)))))"

text \<open>\<open>fetch_news(api_key, query, max_headlines)\<close>: \<open>except Exception: return []\<close>.\<close>

definition fetch_news ::
  "news_provider \<Rightarrow> (json \<Rightarrow> string) \<Rightarrow> string \<Rightarrow> string \<Rightarrow> int \<Rightarrow> py_error + string list"
  where
  "fetch_news requests_get repr api_key query max_headlines =
     (let url = news_url api_key query max_headlines
      in case fetch_news_try requests_get repr url of
           Inl e \<Rightarrow> Inr []
         | Inr hs \<Rightarrow> Inr hs)"

definition default_query :: string where
  "default_query = ''S&P 500 OR Nasdaq futures''"

section \<open>Summary: \<open>summarize_with_openai\<close>\<close>

record chat_message =
  role :: string
  content :: string

record chat_request =
  model :: string
  messages :: "chat_message list"
  max_tokens :: nat
  temperature :: real

text \<open>
  The completion service answers a request with an exception or with the contents of the
  choices of the response, each a text or \<open>None\<close>.
\<close>

type_synonym llm_provider = "chat_request \<Rightarrow> py_error + string option list"

definition system_prompt :: string where
  "system_prompt =
     ''You are an experienced futures trader. ''
     @ ''Return a concise pre-market bias for ES and NQ with key levels.''"

definition bias_request :: "string \<Rightarrow> string \<Rightarrow> chat_request" where
  "bias_request context mdl =
     \<lparr>model = mdl,
      messages = [\<lparr>role = ''system'', content = system_prompt\<rparr>,
                  \<lparr>role = ''user'', content = context\<rparr>],
      max_tokens = 220,
      temperature = 4 / 10\<rparr>"

text \<open>
  The body of the \<open>try\<close>: \<open>resp.choices[0].message.content.strip()\<close>.  An empty list of
  choices and a content that is \<open>None\<close> raise.
\<close>

definition bias_try :: "llm_provider \<Rightarrow> chat_request \<Rightarrow> py_error + string" where
  "bias_try create req =
     (case create req of
        Inl e \<Rightarrow> Inl e
      | Inr choices \<Rightarrow>
          (case choices of
             [] \<Rightarrow> Inl (PyException ''list index out of range'')
           | c # cs \<Rightarrow>
               (case c of
                  None \<Rightarrow>
                    Inl (PyException
                      ([CHR 0x27] @ ''NoneType'' @ [CHR 0x27] @ '' object has no attribute ''
                       @ [CHR 0x27] @ ''strip'' @ [CHR 0x27]))
                | Some t \<Rightarrow> Inr (py_strip t))))"

text \<open>
  \<open>summarize_with_openai(context, model)\<close>.  \<open>api_key\<close> is the module variable
  \<open>openai.api_key\<close>, \<open>None\<close> or a string.  The result is the returned text together with the
  requests sent to the completion service, in order.
\<close>

definition summarize_with_openai ::
  "string option \<Rightarrow> llm_provider \<Rightarrow> string \<Rightarrow> string \<Rightarrow> string \<times> chat_request list" where
  "summarize_with_openai api_key create context mdl =
     (if api_key = None \<or> api_key = Some []
      then (warning_sign @ '' **OPENAI_API_KEY** is missing.'', [])
      else
        let req = bias_request context mdl
        in case bias_try create req of
             Inl (PyException msg) \<Rightarrow> (''Error from OpenAI: '' @ msg, [req])
           | Inr text \<Rightarrow> (text, [req]))"

definition default_model :: string where
  "default_model = ''gpt-3.5-turbo''"

section \<open>The run handler: keys and context\<close>






text \<open>
  What \<open>d.get(key)\<close> and \<open>d.get(key, '0')\<close> give on a stats dict, and that value inside
  an f-string.  The text of a float is given by the parameter \<open>float_str\<close>.
\<close>

datatype py_val = PNone | PStr string | PNum py_num

definition stats_get :: "(string \<rightharpoonup> py_num) \<Rightarrow> string \<Rightarrow> py_val \<Rightarrow> py_val" where
  "stats_get d key dflt = (case d key of Some v \<Rightarrow> PNum v | None \<Rightarrow> dflt)"

fun fmt_val :: "(real \<Rightarrow> string) \<Rightarrow> py_val \<Rightarrow> string" where
  "fmt_val float_str PNone = ''None''"
| "fmt_val float_str (PStr s) = s"
| "fmt_val float_str (PNum (PyFloat r)) = float_str r"
| "fmt_val float_str (PNum PyNaN) = ''nan''"
| "fmt_val float_str (PNum (PyInt i)) = show_int i"

definition instruction :: string where
  "instruction =
     ''Give a concise pre-market bias (bullish / bearish / neutral) ''
     @ ''for ES and NQ and key price levels to watch.''"

text \<open>
  \<open>context_lines\<close> and \<open>context\<close> of the handler (the latter as \<open>context_text\<close>).  \<open>now\<close> is the formatted clock reading.
\<close>

definition context_lines ::
  "(real \<Rightarrow> string) \<Rightarrow> string \<Rightarrow> (string \<rightharpoonup> py_num) \<Rightarrow> (string \<rightharpoonup> py_num) \<Rightarrow>
   (string \<rightharpoonup> py_num) \<Rightarrow> (string \<rightharpoonup> py_num) \<Rightarrow> (string \<rightharpoonup> py_num) \<Rightarrow> string list \<Rightarrow>
   string list" where
  "context_lines fs now es nq vix dxy tnx headlines =
     [''Date: '' @ now,
      [],
      ''Overnight Futures:'',
      ''  '' @ bullet @ '' ES high '' @ fmt_val fs (stats_get es ''high'' PNone)
        @ '' / low '' @ fmt_val fs (stats_get es ''low'' PNone)
        @ '' / last '' @ fmt_val fs (stats_get es ''last'' PNone)
        @ '' ('' @ fmt_val fs (stats_get es ''pct_change'' PNone) @ ''%)'',
      ''  '' @ bullet @ '' NQ high '' @ fmt_val fs (stats_get nq ''high'' PNone)
        @ '' / low '' @ fmt_val fs (stats_get nq ''low'' PNone)
        @ '' / last '' @ fmt_val fs (stats_get nq ''last'' PNone)
        @ '' ('' @ fmt_val fs (stats_get nq ''pct_change'' PNone) @ ''%)'',
      [],
      ''Macro:'',
      ''  '' @ bullet @ '' VIX '' @ fmt_val fs (stats_get vix ''last'' PNone)
        @ '' ('' @ fmt_val fs (stats_get vix ''pct_change'' PNone) @ ''%)'',
      ''  '' @ bullet @ '' DXY '' @ fmt_val fs (stats_get dxy ''last'' PNone)
        @ '' ('' @ fmt_val fs (stats_get dxy ''pct_change'' (PStr ''0'')) @ ''%)'',
      ''  '' @ bullet @ '' 10-yr yield '' @ fmt_val fs (stats_get tnx ''last'' PNone)
        @ '' ('' @ fmt_val fs (stats_get tnx ''pct_change'' (PStr ''0'')) @ ''%)'',
      [],
      ''Top Headlines:'']
     @ map (\<lambda>h. ''  '' @ bullet @ '' '' @ h) headlines
     @ [[], instruction]"

definition context_text ::
  "(real \<Rightarrow> string) \<Rightarrow> string \<Rightarrow> (string \<rightharpoonup> py_num) \<Rightarrow> (string \<rightharpoonup> py_num) \<Rightarrow>
   (string \<rightharpoonup> py_num) \<Rightarrow> (string \<rightharpoonup> py_num) \<Rightarrow> (string \<rightharpoonup> py_num) \<Rightarrow> string list \<Rightarrow>
   string" where
  "context_text fs now es nq vix dxy tnx headlines =
     str_join newline (context_lines fs now es nq vix dxy tnx headlines)"

section \<open>Notions of the specification\<close>



text \<open>
  A field of a stats dict as the context shows it: its value, or a marker when the dict does
  not have it; and the two kinds of data line built from such fields.
\<close>

definition field_or_marker ::
  "(real \<Rightarrow> string) \<Rightarrow> (string \<rightharpoonup> py_num) \<Rightarrow> string \<Rightarrow> string \<Rightarrow> string" where
  "field_or_marker fs d key marker =
     (case d key of None \<Rightarrow> marker | Some v \<Rightarrow> fmt_val fs (PNum v))"

definition futures_line :: "(real \<Rightarrow> string) \<Rightarrow> string \<Rightarrow> (string \<rightharpoonup> py_num) \<Rightarrow> string" where
  "futures_line fs name d =
     ''  '' @ bullet @ '' '' @ name
     @ '' high '' @ field_or_marker fs d ''high'' ''None''
     @ '' / low '' @ field_or_marker fs d ''low'' ''None''
     @ '' / last '' @ field_or_marker fs d ''last'' ''None''
     @ '' ('' @ field_or_marker fs d ''pct_change'' ''None'' @ ''%)''"

definition macro_line ::
  "(real \<Rightarrow> string) \<Rightarrow> string \<Rightarrow> (string \<rightharpoonup> py_num) \<Rightarrow> string \<Rightarrow> string" where
  "macro_line fs name d pct_marker =
     ''  '' @ bullet @ '' '' @ name
     @ '' '' @ field_or_marker fs d ''last'' ''None''
     @ '' ('' @ field_or_marker fs d ''pct_change'' pct_marker @ ''%)''"

text \<open>
  The payload of the news interface of the specification,
  \<open>{articles: [{title, source: {name}}, ...]}\<close>: an object whose \<open>articles\<close> is a list of
  objects that each have a \<open>title\<close> and a \<open>source\<close> object with a \<open>name\<close>.
\<close>

fun has_key :: "json \<Rightarrow> string \<Rightarrow> bool" where
  "has_key (JObj kvs) key = (map_of kvs key \<noteq> None)"
| "has_key v key = False"

definition spec_article :: "json \<Rightarrow> bool" where
  "spec_article a =
     (has_key a ''title'' \<and>
      (case py_subscript a ''source'' of Inr src \<Rightarrow> has_key src ''name'' | Inl e \<Rightarrow> False))"

definition spec_payload :: "json \<Rightarrow> bool" where
  "spec_payload j =
     (case j of
        JObj kvs \<Rightarrow>
          (case map_of kvs ''articles'' of
             Some (JArr as) \<Rightarrow> list_all spec_article as
           | _ \<Rightarrow> False)
      | _ \<Rightarrow> False)"

section \<open>Sample inputs\<close>

text \<open>
  A series with one bar at noon and no daily bars; a series with two overnight bars and a
  later bar at noon, with one daily bar; the same series with a daily close of zero; a
  provider whose five-minute series is empty and whose daily query fails.
\<close>

definition midday_bar :: bar where
  "midday_bar = \<lparr>bar_time = 43200, bar_open = 9, bar_high = 10, bar_low = 9,
                  bar_close = 19 / 2\<rparr>"

definition midday_only :: market_provider where
  "midday_only ticker start end iv =
     (case iv of FiveMin \<Rightarrow> Inr [midday_bar] | OneDay \<Rightarrow> Inr [])"






definition empty_then_down :: market_provider where
  "empty_then_down ticker start end iv =
     (case iv of FiveMin \<Rightarrow> Inr [] | OneDay \<Rightarrow> Inl (PyException ''connection reset''))"

text \<open>A completion service that answers, a stats dict with a zero change, a float text.\<close>

definition echo_llm :: llm_provider where
  "echo_llm req = Inr [Some ''Bullish bias'']"

definition quiet_stats :: "string \<rightharpoonup> py_num" where
  "quiet_stats = Map.empty(''pct_change'' \<mapsto> PyInt 0)"

definition tick_str :: "real \<Rightarrow> string" where
  "tick_str r = ''1.5''"

text \<open>
  News answers: one article behind status 300, six articles behind status 200, a refusal
  with status 401, two well-formed articles, and a request that times out.  \<open>plain_repr\<close>
  stands for the text of values that are not strings.
\<close>

definition sample_article :: json where
  "sample_article =
     JObj [(''title'', JStr ''T''),
           (''source'', JObj [(''id'', JNull), (''name'', JStr ''S'')])]"

definition plain_repr :: "json \<Rightarrow> string" where
  "plain_repr v = ''?''"

definition redirect_news :: news_provider where
  "redirect_news url =
     Inr \<lparr>status_code = 300,
          json_body = Inr (JObj [(''status'', JStr ''ok''),
                                 (''articles'', JArr [sample_article])])\<rparr>"

definition busy_news :: news_provider where
  "busy_news url =
     Inr \<lparr>status_code = 200,
          json_body = Inr (JObj [(''status'', JStr ''ok''),
                                 (''articles'',
                                  JArr [sample_article, sample_article, sample_article,
                                        sample_article, sample_article, sample_article])])\<rparr>"

definition revoked_news :: news_provider where
  "revoked_news url =
     Inr \<lparr>status_code = 401, json_body = Inr (JObj [(''status'', JStr ''error'')])\<rparr>"

definition two_articles :: "json list" where
  "two_articles =
     [JObj [(''title'', JStr ''Fed holds''), (''source'', JObj [(''name'', JStr ''A'')])],
      JObj [(''title'', JStr ''Oil up''), (''source'', JObj [(''name'', JStr ''B'')])]]"

definition two_response :: http_response where
  "two_response =
     \<lparr>status_code = 200, json_body = Inr (JObj [(''articles'', JArr two_articles)])\<rparr>"

definition two_news :: news_provider where
  "two_news url = Inr two_response"

definition down_news :: news_provider where
  "down_news url = Inl (PyException ''ConnectTimeout'')"

section \<open>Auxiliary facts\<close>







lemma show_int_0: "show_int 0 = ''0''"
  by (simp add: show_int_def dec_digit_def)

text \<open>Every part of a joined text occurs in it.\<close>

lemma sublist_str_join: "l \<in> set ls \<Longrightarrow> sublist l (str_join sep ls)"
proof (induction sep ls rule: str_join.induct)
  case (1 sep)
  then show ?case by simp
next
  case (2 sep x)
  then show ?case by simp
next
  case (3 sep x y ys)
  show ?case
  proof (cases "l = x")
    case True
    then show ?thesis by simp
  next
    case False
    with 3 have "sublist l (str_join sep (y # ys))"
      by simp
    then obtain ps ss where "str_join sep (y # ys) = ps @ l @ ss"
      by (auto simp: sublist_def)
    then have "str_join sep (x # y # ys) = (x @ sep @ ps) @ l @ ss"
      by simp
    then show ?thesis
      unfolding sublist_def by blast
  qed
qed

lemma stats_field: "fmt_val fs (stats_get d key PNone) = field_or_marker fs d key ''None''"
  by (simp add: stats_get_def field_or_marker_def split: option.splits)

lemma stats_field_zero:
  "fmt_val fs (stats_get d key (PStr ''0'')) = field_or_marker fs d key ''0''"
  by (simp add: stats_get_def field_or_marker_def split: option.splits)

lemma context_lines_length:
  "length (context_lines fs now es nq vix dxy tnx hs) = 14 + length hs"
  by (simp add: context_lines_def)

text \<open>With a key, exactly one request goes to the completion service.\<close>

lemma summarize_with_key_one_request:
  assumes "api_key = Some k" and "k \<noteq> []"
  shows "snd (summarize_with_openai api_key create context mdl) = [bias_request context mdl]"
  using assms
  by (auto simp: summarize_with_openai_def Let_def split: sum.splits py_error.splits)

text \<open>
  The list comprehension succeeds only on articles of the specified shape, and maps
  articles whose title and source name are strings to \<open>title - name\<close> in order.
\<close>

lemma subscript_has_key: "py_subscript v key = Inr x \<Longrightarrow> has_key v key"
  by (cases v) (auto split: option.splits)

lemma headline_of_article:
  assumes "headline_of repr a = Inr h"
  shows "spec_article a"
proof -
  from assms obtain t src n where "py_subscript a ''title'' = Inr t"
    and "py_subscript a ''source'' = Inr src" and "py_subscript src ''name'' = Inr n"
    by (auto simp: headline_of_def split: sum.splits)
  then show ?thesis
    by (simp add: spec_article_def subscript_has_key)
qed

lemma headlines_of_articles: "headlines_of repr as = Inr hs \<Longrightarrow> list_all spec_article as"
proof (induction as arbitrary: hs)
  case Nil
  then show ?case by simp
next
  case (Cons a as)
  then show ?case
    by (auto split: sum.splits dest: headline_of_article)
qed

lemma headline_of_str: "headline_of repr (JStr s) = Inl (PyException ''TypeError'')"
  by (simp add: headline_of_def)

lemma headlines_of_strs: "headlines_of repr (map (\<lambda>x. JStr (f x)) xs) = Inr hs \<Longrightarrow> hs = []"
  by (cases xs) (auto simp: headline_of_str)

lemma fetch_news_try_malformed:
  assumes "requests_get url = Inr r"
    and "json_body r = Inr j"
    and "\<not> spec_payload j"
    and "fetch_news_try requests_get repr url = Inr hs"
  shows "hs = []"
proof (cases j)
  case (JObj kvs)
  show ?thesis
  proof (cases "map_of kvs ''articles''")
    case None
    with assms JObj show ?thesis
      by (auto simp: fetch_news_try_def split: sum.splits)
  next
    case (Some arts)
    show ?thesis
    proof (cases arts)
      case (JArr as)
      with assms JObj Some have "\<not> list_all spec_article as"
        by (simp add: spec_payload_def)
      moreover from assms JObj Some JArr have "headlines_of repr as = Inr hs"
        by (auto simp: fetch_news_try_def split: sum.splits)
      ultimately show ?thesis
        using headlines_of_articles by blast
    next
      case (JObj kvs')
      with assms \<open>j = JObj kvs\<close> Some
      have "headlines_of repr (map (\<lambda>kv. JStr (fst kv)) kvs') = Inr hs"
        by (auto simp: fetch_news_try_def split: sum.splits)
      then show ?thesis
        by (rule headlines_of_strs)
    next
      case (JStr s)
      with assms \<open>j = JObj kvs\<close> Some
      have "headlines_of repr (map (\<lambda>c. JStr [c]) s) = Inr hs"
        by (auto simp: fetch_news_try_def split: sum.splits)
      then show ?thesis
        by (rule headlines_of_strs)
    qed (use assms \<open>j = JObj kvs\<close> Some in
          \<open>auto simp: fetch_news_try_def split: sum.splits\<close>)
  qed
qed (use assms in \<open>auto simp: fetch_news_try_def split: sum.splits\<close>)

lemma headlines_of_titles:
  assumes "list_all2 (\<lambda>a tn. py_subscript a ''title'' = Inr (JStr (fst tn))
             \<and> (\<exists>src. py_subscript a ''source'' = Inr src
                  \<and> py_subscript src ''name'' = Inr (JStr (snd tn)))) arts tns"
  shows "headlines_of repr arts = Inr (map (\<lambda>tn. fst tn @ '' '' @ em_dash @ '' '' @ snd tn) tns)"
  using assms
proof (induction arts tns rule: list_all2_induct)
  case Nil
  then show ?case by simp
next
  case (Cons a tn arts tns)
  then show ?case
    by (auto simp: headline_of_def)
qed

section \<open>Price statistics\<close>

text \<open>
  C1 (code evaluated at a failing input).  The claim: the dict returned by
  \<open>get_price_stats\<close> is either empty or has all five fields present and numeric, never a
  partial fill.  For a five-minute series whose only bar lies at noon, outside the overnight
  window, the source returns the five keys with \<open>high\<close> and \<open>low\<close> equal to \<open>nan\<close> next
  to a numeric \<open>last\<close>, \<open>prev_close\<close> and \<open>pct_change\<close>: the empty window is not guarded
  the way the empty download is.
\<close>

theorem get_price_stats_partial_fill:
  "get_price_stats midday_only 0 ''^VIX'' =
     Inr (Map.empty(''high'' \<mapsto> PyNaN, ''low'' \<mapsto> PyNaN,
                    ''last'' \<mapsto> PyFloat (19 / 2), ''prev_close'' \<mapsto> PyFloat (19 / 2),
                    ''pct_change'' \<mapsto> PyFloat 0))
   \<and> \<not> is_number PyNaN \<and> is_number (PyFloat (19 / 2))"
  by (simp add: get_price_stats_def midday_only_def midday_bar_def between_time_def
      in_time_window_def t_1800_def t_0930_def round2_def round_half_even_def Let_def)

text \<open>
  C8.  When the five-minute query returns an empty series, \<open>get_price_stats\<close> returns the
  empty dict and raises nothing, whatever the daily query would do: it is not reached.
\<close>

theorem get_price_stats_empty_series:
  assumes "yf_download ticker (today - 1) None FiveMin = Inr []"
  shows "get_price_stats yf_download today ticker = Inr Map.empty"
  using assms by (simp add: get_price_stats_def)

theorem get_price_stats_empty_series_witness:
  "empty_then_down ''ES=F'' (0 - 1) None FiveMin = Inr []
   \<and> (\<exists>e. empty_then_down ''ES=F'' (0 - 3) (Some (0 - 1)) OneDay = Inl e)
   \<and> get_price_stats empty_then_down 0 ''ES=F'' = Inr Map.empty"
proof -
  have h: "empty_then_down ''ES=F'' (0 - 1) None FiveMin = Inr []"
    by (simp add: empty_then_down_def)
  have "\<exists>e. empty_then_down ''ES=F'' (0 - 3) (Some (0 - 1)) OneDay = Inl e"
    by (simp add: empty_then_down_def)
  with h get_price_stats_empty_series [where yf_download = empty_then_down
      and ticker = "''ES=F''" and today = 0]
  show ?thesis
    by simp
qed







section \<open>Bias summary\<close>

text \<open>
  C3.  When \<open>openai.api_key\<close> is \<open>None\<close> or the empty string, \<open>summarize_with_openai\<close>
  returns the text saying that \<open>OPENAI_API_KEY\<close> is missing, and sends no request to the
  completion service.  (The source returns plain text in every branch; the diagnostic text is
  what marks the error.)
\<close>

theorem summarize_missing_key:
  assumes "api_key = None \<or> api_key = Some []"
  shows "summarize_with_openai api_key create context mdl =
           (warning_sign @ '' **OPENAI_API_KEY** is missing.'', [])
       \<and> sublist ''OPENAI_API_KEY** is missing''
            (fst (summarize_with_openai api_key create context mdl))
       \<and> length (snd (summarize_with_openai api_key create context mdl)) = 0"
proof -
  have r: "summarize_with_openai api_key create context mdl =
           (warning_sign @ '' **OPENAI_API_KEY** is missing.'', [])"
    using assms by (auto simp: summarize_with_openai_def)
  have "warning_sign @ '' **OPENAI_API_KEY** is missing.'' =
        (warning_sign @ '' **'') @ ''OPENAI_API_KEY** is missing'' @ ''.''"
    by simp
  then have "sublist ''OPENAI_API_KEY** is missing''
      (warning_sign @ '' **OPENAI_API_KEY** is missing.'')"
    unfolding sublist_def by blast
  with r show ?thesis
    by simp
qed

theorem summarize_missing_key_witness:
  "summarize_with_openai (Some []) echo_llm ''Date: '' ''gpt-3.5-turbo'' =
     (warning_sign @ '' **OPENAI_API_KEY** is missing.'', [])
   \<and> summarize_with_openai None echo_llm ''Date: '' ''gpt-3.5-turbo'' =
     (warning_sign @ '' **OPENAI_API_KEY** is missing.'', [])
   \<and> snd (summarize_with_openai (Some ''sk-1'') echo_llm ''Date: '' ''gpt-3.5-turbo'') =
     [bias_request ''Date: '' ''gpt-3.5-turbo'']"
proof -
  have a: "Some [] = None \<or> Some [] = Some ([] :: string)"
    by simp
  have b: "None = None \<or> None = Some ([] :: string)"
    by simp
  have c: "snd (summarize_with_openai (Some ''sk-1'') echo_llm ''Date: '' ''gpt-3.5-turbo'') =
     [bias_request ''Date: '' ''gpt-3.5-turbo'']"
    by (simp add: summarize_with_openai_def bias_try_def echo_llm_def)
  from summarize_missing_key [OF a, of echo_llm "''Date: ''" "''gpt-3.5-turbo''"]
    summarize_missing_key [OF b, of echo_llm "''Date: ''" "''gpt-3.5-turbo''"] c
  show ?thesis
    by simp
qed

section \<open>Keys and context\<close>



text \<open>
  C2 as stated fails: a missing \<open>pct_change\<close> of DXY (and of the 10-year yield) is shown
  as \<open>0\<close>, the text a present change of zero has, and not as the marker \<open>None\<close> every other
  missing field gets.
\<close>

theorem context_missing_pct_change_counterexample:
  "context_lines tick_str ''2025-07-01 08:30 '' Map.empty Map.empty Map.empty Map.empty
      Map.empty [] ! 8 = ''  '' @ bullet @ '' DXY None (0%)''
   \<and> context_lines tick_str ''2025-07-01 08:30 '' Map.empty Map.empty Map.empty quiet_stats
      Map.empty [] ! 8 = ''  '' @ bullet @ '' DXY None (0%)''
   \<and> context_lines tick_str ''2025-07-01 08:30 '' Map.empty Map.empty Map.empty Map.empty
      Map.empty [] ! 8 \<noteq> ''  '' @ bullet @ '' DXY None (None%)''
   \<and> context_lines tick_str ''2025-07-01 08:30 '' Map.empty Map.empty Map.empty Map.empty
      Map.empty [] ! 9 = ''  '' @ bullet @ '' 10-yr yield None (0%)''"
  by (simp add: context_lines_def stats_get_def quiet_stats_def show_int_0)

text \<open>
  C2 (amended).  For all stats dicts and headlines the context has \<open>14 + length headlines\<close>
  lines: the date header first, the labels \<open>Overnight Futures:\<close>, \<open>Macro:\<close> and
  \<open>Top Headlines:\<close> at fixed places, the instruction last, and every line occurs in the
  joined text.  Every field of the five data lines is shown in its line: a missing field as
  \<open>None\<close>, except the \<open>pct_change\<close> of DXY and of the 10-year yield, shown as \<open>0\<close>.
\<close>

theorem context_sections_and_fields:
  "length (context_lines fs now es nq vix dxy tnx hs) = 14 + length hs
   \<and> context_lines fs now es nq vix dxy tnx hs ! 0 = ''Date: '' @ now
   \<and> context_lines fs now es nq vix dxy tnx hs ! 2 = ''Overnight Futures:''
   \<and> context_lines fs now es nq vix dxy tnx hs ! 3 = futures_line fs ''ES'' es
   \<and> context_lines fs now es nq vix dxy tnx hs ! 4 = futures_line fs ''NQ'' nq
   \<and> context_lines fs now es nq vix dxy tnx hs ! 6 = ''Macro:''
   \<and> context_lines fs now es nq vix dxy tnx hs ! 7 = macro_line fs ''VIX'' vix ''None''
   \<and> context_lines fs now es nq vix dxy tnx hs ! 8 = macro_line fs ''DXY'' dxy ''0''
   \<and> context_lines fs now es nq vix dxy tnx hs ! 9 = macro_line fs ''10-yr yield'' tnx ''0''
   \<and> context_lines fs now es nq vix dxy tnx hs ! 11 = ''Top Headlines:''
   \<and> last (context_lines fs now es nq vix dxy tnx hs) = instruction
   \<and> (\<forall>l \<in> set (context_lines fs now es nq vix dxy tnx hs).
         sublist l (context_text fs now es nq vix dxy tnx hs))"
proof -
  have p: "\<forall>l \<in> set (context_lines fs now es nq vix dxy tnx hs).
         sublist l (context_text fs now es nq vix dxy tnx hs)"
    by (simp add: context_text_def sublist_str_join)
  have q: "last (context_lines fs now es nq vix dxy tnx hs) = instruction"
    by (simp add: context_lines_def)
  have r: "context_lines fs now es nq vix dxy tnx hs ! 3 = futures_line fs ''ES'' es"
    "context_lines fs now es nq vix dxy tnx hs ! 4 = futures_line fs ''NQ'' nq"
    "context_lines fs now es nq vix dxy tnx hs ! 7 = macro_line fs ''VIX'' vix ''None''"
    "context_lines fs now es nq vix dxy tnx hs ! 8 = macro_line fs ''DXY'' dxy ''0''"
    "context_lines fs now es nq vix dxy tnx hs ! 9 = macro_line fs ''10-yr yield'' tnx ''0''"
    by (simp_all add: context_lines_def futures_line_def macro_line_def stats_field
        stats_field_zero)
  have s: "context_lines fs now es nq vix dxy tnx hs ! 0 = ''Date: '' @ now"
    "context_lines fs now es nq vix dxy tnx hs ! 2 = ''Overnight Futures:''"
    "context_lines fs now es nq vix dxy tnx hs ! 6 = ''Macro:''"
    "context_lines fs now es nq vix dxy tnx hs ! 11 = ''Top Headlines:''"
    by (simp_all add: context_lines_def)
  from p q r s context_lines_length show ?thesis
    by blast
qed

theorem context_sections_and_fields_witness:
  "set (context_lines tick_str ''2025-07-01 08:30 '' Map.empty Map.empty Map.empty Map.empty
          Map.empty []) \<noteq> {}
   \<and> context_text tick_str ''2025-07-01 08:30 '' Map.empty Map.empty Map.empty Map.empty
        Map.empty [] =
      ''Date: 2025-07-01 08:30 '' @ newline @ newline
      @ ''Overnight Futures:'' @ newline
      @ ''  '' @ bullet @ '' ES high None / low None / last None (None%)'' @ newline
      @ ''  '' @ bullet @ '' NQ high None / low None / last None (None%)'' @ newline @ newline
      @ ''Macro:'' @ newline
      @ ''  '' @ bullet @ '' VIX None (None%)'' @ newline
      @ ''  '' @ bullet @ '' DXY None (0%)'' @ newline
      @ ''  '' @ bullet @ '' 10-yr yield None (0%)'' @ newline @ newline
      @ ''Top Headlines:'' @ newline @ newline
      @ instruction
   \<and> sublist ''Top Headlines:''
        (context_text tick_str ''2025-07-01 08:30 '' Map.empty Map.empty Map.empty Map.empty
           Map.empty [])"
proof -
  have m: "''Top Headlines:'' \<in> set (context_lines tick_str ''2025-07-01 08:30 '' Map.empty
      Map.empty Map.empty Map.empty Map.empty [])"
    by (simp add: context_lines_def)
  have t: "context_text tick_str ''2025-07-01 08:30 '' Map.empty Map.empty Map.empty Map.empty
        Map.empty [] =
      ''Date: 2025-07-01 08:30 '' @ newline @ newline
      @ ''Overnight Futures:'' @ newline
      @ ''  '' @ bullet @ '' ES high None / low None / last None (None%)'' @ newline
      @ ''  '' @ bullet @ '' NQ high None / low None / last None (None%)'' @ newline @ newline
      @ ''Macro:'' @ newline
      @ ''  '' @ bullet @ '' VIX None (None%)'' @ newline
      @ ''  '' @ bullet @ '' DXY None (0%)'' @ newline
      @ ''  '' @ bullet @ '' 10-yr yield None (0%)'' @ newline @ newline
      @ ''Top Headlines:'' @ newline @ newline
      @ instruction"
    by (simp add: context_text_def context_lines_def stats_get_def)
  from context_sections_and_fields [of tick_str "''2025-07-01 08:30 ''" Map.empty Map.empty
      Map.empty Map.empty Map.empty "[]"] m
  have "sublist ''Top Headlines:''
        (context_text tick_str ''2025-07-01 08:30 '' Map.empty Map.empty Map.empty Map.empty
           Map.empty [])"
    by blast
  moreover have "set (context_lines tick_str ''2025-07-01 08:30 '' Map.empty Map.empty
      Map.empty Map.empty Map.empty []) \<noteq> {}"
    by (simp add: context_lines_def)
  ultimately show ?thesis
    using t by (intro conjI)
qed

section \<open>News headlines\<close>

text \<open>
  C4 as stated fails for a status that is not 2xx and not 4xx or 5xx: \<open>raise_for_status\<close>
  lets status 300 pass, and a well-formed payload behind it yields its headline.
\<close>

theorem fetch_news_redirect_counterexample:
  "redirect_news (news_url ''key'' default_query 5) =
     Inr \<lparr>status_code = 300,
          json_body = Inr (JObj [(''status'', JStr ''ok''),
                                 (''articles'', JArr [sample_article])])\<rparr>
   \<and> \<not> (200 \<le> (300 :: nat) \<and> (300 :: nat) < 300)
   \<and> fetch_news redirect_news plain_repr ''key'' default_query 5 =
       Inr [''T '' @ em_dash @ '' S'']
   \<and> fetch_news redirect_news plain_repr ''key'' default_query 5 \<noteq> Inr []"
  by (simp add: redirect_news_def fetch_news_def fetch_news_try_def raise_for_status_def
      sample_article_def headline_of_def)

text \<open>
  C4 (amended).  \<open>fetch_news\<close> never raises: it always returns a list.  The list is empty
  whenever the request raises, the status is in 400 to 599, the body is not JSON, or the
  payload is not of the specified shape.
\<close>

theorem fetch_news_failure_empty:
  "(\<exists>hs. fetch_news requests_get repr api_key query max_headlines = Inr hs)
   \<and> ((\<exists>e. requests_get (news_url api_key query max_headlines) = Inl e) \<longrightarrow>
        fetch_news requests_get repr api_key query max_headlines = Inr [])
   \<and> (\<forall>r. requests_get (news_url api_key query max_headlines) = Inr r
          \<and> ((400 \<le> status_code r \<and> status_code r < 600)
             \<or> (\<exists>e. json_body r = Inl e)
             \<or> (\<exists>j. json_body r = Inr j \<and> \<not> spec_payload j)) \<longrightarrow>
        fetch_news requests_get repr api_key query max_headlines = Inr [])"
proof (intro conjI allI impI)
  show "\<exists>hs. fetch_news requests_get repr api_key query max_headlines = Inr hs"
    by (simp add: fetch_news_def split: sum.splits)
next
  assume "\<exists>e. requests_get (news_url api_key query max_headlines) = Inl e"
  then show "fetch_news requests_get repr api_key query max_headlines = Inr []"
    by (auto simp: fetch_news_def fetch_news_try_def)
next
  fix r
  assume a: "requests_get (news_url api_key query max_headlines) = Inr r
          \<and> ((400 \<le> status_code r \<and> status_code r < 600)
             \<or> (\<exists>e. json_body r = Inl e)
             \<or> (\<exists>j. json_body r = Inr j \<and> \<not> spec_payload j))"
  then have g: "requests_get (news_url api_key query max_headlines) = Inr r"
    by simp
  from a consider (status) "400 \<le> status_code r \<and> status_code r < 600"
    | (body) e where "json_body r = Inl e"
    | (payload) j where "json_body r = Inr j" "\<not> spec_payload j"
    by blast
  then show "fetch_news requests_get repr api_key query max_headlines = Inr []"
  proof cases
    case status
    with g show ?thesis
      by (simp add: fetch_news_def fetch_news_try_def raise_for_status_def)
  next
    case body
    with g show ?thesis
      by (simp add: fetch_news_def fetch_news_try_def split: sum.splits)
  next
    case payload
    with g fetch_news_try_malformed [of requests_get _ r j repr] show ?thesis
      by (auto simp: fetch_news_def split: sum.splits)
  qed
qed

theorem fetch_news_failure_empty_witness:
  "(\<exists>e. down_news (news_url ''key'' default_query 5) = Inl e)
   \<and> fetch_news down_news plain_repr ''key'' default_query 5 = Inr []
   \<and> (\<exists>r. revoked_news (news_url ''key'' default_query 5) = Inr r
          \<and> 400 \<le> status_code r \<and> status_code r < 600)
   \<and> fetch_news revoked_news plain_repr ''key'' default_query 5 = Inr []"
proof -
  have a: "\<exists>e. down_news (news_url ''key'' default_query 5) = Inl e"
    by (simp add: down_news_def)
  have b: "revoked_news (news_url ''key'' default_query 5) =
      Inr \<lparr>status_code = 401, json_body = Inr (JObj [(''status'', JStr ''error'')])\<rparr>"
    by (simp add: revoked_news_def)
  from a fetch_news_failure_empty [of down_news plain_repr "''key''" default_query 5]
  have c: "fetch_news down_news plain_repr ''key'' default_query 5 = Inr []"
    by blast
  from b fetch_news_failure_empty [of revoked_news plain_repr "''key''" default_query 5]
  have d: "fetch_news revoked_news plain_repr ''key'' default_query 5 = Inr []"
    by simp
  from a b c d show ?thesis
    by simp
qed

text \<open>
  C7 as stated fails: the list is not cut to \<open>max_headlines\<close>.  Six articles returned for
  \<open>max_headlines = 5\<close> give six headlines.
\<close>

theorem fetch_news_untruncated_counterexample:
  "fetch_news busy_news plain_repr ''key'' default_query 5 =
     Inr [''T '' @ em_dash @ '' S'', ''T '' @ em_dash @ '' S'', ''T '' @ em_dash @ '' S'',
          ''T '' @ em_dash @ '' S'', ''T '' @ em_dash @ '' S'', ''T '' @ em_dash @ '' S'']
   \<and> \<not> int (length [''T '' @ em_dash @ '' S'', ''T '' @ em_dash @ '' S'',
          ''T '' @ em_dash @ '' S'', ''T '' @ em_dash @ '' S'', ''T '' @ em_dash @ '' S'',
          ''T '' @ em_dash @ '' S'']) \<le> 5"
  by (simp add: busy_news_def fetch_news_def fetch_news_try_def raise_for_status_def
      sample_article_def headline_of_def)

text \<open>
  C7 (amended).  For a response that passes the status check and carries a list of articles
  whose titles and source names are strings, \<open>fetch_news\<close> returns exactly one headline
  per article, title and source name joined by a dash, in the order of the response; the
  number of headlines is the number of articles returned.  \<open>max_headlines\<close> only travels
  to the provider as \<open>pageSize\<close> in the request.
\<close>

theorem fetch_news_one_per_article:
  assumes "requests_get (news_url api_key query max_headlines) = Inr r"
    and "\<not> (400 \<le> status_code r \<and> status_code r < 600)"
    and "json_body r = Inr (JObj kvs)"
    and "map_of kvs ''articles'' = Some (JArr arts)"
    and "list_all2 (\<lambda>a tn. py_subscript a ''title'' = Inr (JStr (fst tn))
             \<and> (\<exists>src. py_subscript a ''source'' = Inr src
                  \<and> py_subscript src ''name'' = Inr (JStr (snd tn)))) arts tns"
  shows "fetch_news requests_get repr api_key query max_headlines =
           Inr (map (\<lambda>tn. fst tn @ '' '' @ em_dash @ '' '' @ snd tn) tns)
       \<and> length (map (\<lambda>tn. fst tn @ '' '' @ em_dash @ '' '' @ snd tn) tns) = length arts
       \<and> sublist (''&pageSize='' @ show_int max_headlines)
           (news_url api_key query max_headlines)"
proof -
  have "fetch_news_try requests_get repr (news_url api_key query max_headlines) =
      headlines_of repr arts"
    using assms(1-4) by (auto simp: fetch_news_try_def raise_for_status_def)
  then have "fetch_news requests_get repr api_key query max_headlines =
           Inr (map (\<lambda>tn. fst tn @ '' '' @ em_dash @ '' '' @ snd tn) tns)"
    using headlines_of_titles [OF assms(5), of repr] by (simp add: fetch_news_def)
  moreover have "length tns = length arts"
    using assms(5) by (simp add: list_all2_lengthD)
  moreover have "news_url api_key query max_headlines =
      (''https://newsapi.org/v2/top-headlines?'' @ ''q='' @ quote query
         @ ''&language=en&category=business'')
      @ (''&pageSize='' @ show_int max_headlines) @ (''&apiKey='' @ api_key)"
    by (simp add: news_url_def)
  then have "sublist (''&pageSize='' @ show_int max_headlines)
      (news_url api_key query max_headlines)"
    unfolding sublist_def by blast
  ultimately show ?thesis
    by simp
qed

theorem fetch_news_one_per_article_witness:
  "two_news (news_url ''key'' default_query 5) = Inr two_response
   \<and> \<not> (400 \<le> status_code two_response \<and> status_code two_response < 600)
   \<and> json_body two_response = Inr (JObj [(''articles'', JArr two_articles)])
   \<and> map_of [(''articles'', JArr two_articles)] ''articles'' = Some (JArr two_articles)
   \<and> fetch_news two_news plain_repr ''key'' default_query 5 =
       Inr [''Fed holds '' @ em_dash @ '' A'', ''Oil up '' @ em_dash @ '' B'']"
proof -
  have h1: "two_news (news_url ''key'' default_query 5) = Inr two_response"
    by (simp add: two_news_def)
  have h2: "\<not> (400 \<le> status_code two_response \<and> status_code two_response < 600)"
    by (simp add: two_response_def)
  have h3: "json_body two_response = Inr (JObj [(''articles'', JArr two_articles)])"
    by (simp add: two_response_def)
  have h4: "map_of [(''articles'', JArr two_articles)] ''articles'' = Some (JArr two_articles)"
    by simp
  have h5: "list_all2 (\<lambda>a tn. py_subscript a ''title'' = Inr (JStr (fst tn))
             \<and> (\<exists>src. py_subscript a ''source'' = Inr src
                  \<and> py_subscript src ''name'' = Inr (JStr (snd tn))))
          two_articles [(''Fed holds'', ''A''), (''Oil up'', ''B'')]"
    by (simp add: two_articles_def)
  from fetch_news_one_per_article [where requests_get = two_news and api_key = "''key''"
      and query = default_query and max_headlines = 5 and repr = plain_repr,
      OF h1 h2 h3 h4 h5]
  have "fetch_news two_news plain_repr ''key'' default_query 5 =
       Inr [''Fed holds '' @ em_dash @ '' A'', ''Oil up '' @ em_dash @ '' B'']"
    by simp
  with h1 h2 h3 h4 show ?thesis
    by (intro conjI)
qed

end
